theory Spec2Isabelle
  imports Main "HOL-Library.AList"
begin

section \<open>The image loader of cornerstone-core\<close>

text \<open>
  The development embeds \<^verbatim>\<open>src/cornerstone-core/src/imageLoader.ts\<close>: the registry of
  image loaders (\<^verbatim>\<open>imageLoaders\<close>, \<^verbatim>\<open>unknownImageLoader\<close>), the dispatch
  \<^verbatim>\<open>loadImageFromImageLoader\<close> and the two entry points \<^verbatim>\<open>loadImage\<close> and
  \<^verbatim>\<open>loadAndCacheImage\<close>. The module's variables, the cache it talks to, the handlers
  it attaches to promises and the events it triggers are one explicit state, passed in and
  returned; a \<^verbatim>\<open>throw\<close> is the \<open>Inl\<close> of a sum.
\<close>

subsection \<open>Values\<close>

text \<open>
  A promise is known by its identity. Images and errors are opaque to this module; an error
  object carries its message, as \<^verbatim>\<open>new Error('...')\<close> does. \<open>NativeError\<close> is an
  error object that the engine throws by itself: a \<^verbatim>\<open>TypeError\<close> (a value that is not
  a function is called, a property of \<^verbatim>\<open>undefined\<close> is read, a read-only property is
  assigned in strict code), or what the \<^verbatim>\<open>Function\<close> constructor throws when it is
  called on text that is no program.
\<close>

type_synonym Promise = nat

datatype IImage = Image nat

datatype JSError = Error string | NativeError

datatype outcome = Fulfilled IImage | Rejected JSError

text \<open>
  \<^verbatim>\<open>ImageLoadObject\<close>: of its fields the module reads only \<^verbatim>\<open>promise\<close>.
  \<^verbatim>\<open>ImageLoaderOptions\<close> is \<^verbatim>\<open>{ [key: string]: any }\<close>; an argument the caller
  leaves out is \<^verbatim>\<open>undefined\<close>, here \<open>None\<close>.
\<close>

record ImageLoadObject =
  promise :: Promise

type_synonym ImageLoaderOptions = "(string \<times> string) list"

type_synonym ImageLoaderFn = "string \<Rightarrow> ImageLoaderOptions option \<Rightarrow> ImageLoadObject"

text \<open>The two events of \<^verbatim>\<open>EVENTS\<close> this module triggers, each with its detail.\<close>

datatype Event =
    IMAGE_LOADED IImage
  | IMAGE_LOAD_FAILED string JSError

text \<open>
  What \<^verbatim>\<open>cache.getVolumeContainingImageId\<close> answers: \<^verbatim>\<open>{ volume, imageIdIndex }\<close>,
  where the volume has \<^verbatim>\<open>loadStatus.loaded\<close> and the method
  \<^verbatim>\<open>convertToCornerstoneImage(imageId, imageIdIndex)\<close>.
\<close>

record LoadStatus =
  loaded :: bool

record Volume =
  loadStatus :: LoadStatus
  convertToCornerstoneImage :: "string \<Rightarrow> int \<Rightarrow> ImageLoadObject"

record CachedVolumeInfo =
  volume :: Volume
  imageIdIndex :: int

text \<open>
  The calls the module makes to the capabilities it is given, in order: a loader with the
  arguments it received (a missing second argument is \<open>None\<close>), a volume's
  \<^verbatim>\<open>convertToCornerstoneImage\<close>, and \<^verbatim>\<open>cache.putImageLoadObject\<close>.
\<close>

datatype call =
    LoaderCall ImageLoaderFn string "ImageLoaderOptions option"
  | ConvertCall Volume string int
  | PutCall string ImageLoadObject

subsection \<open>The cache\<close>

text \<open>
  Modelled from the spec: \<^verbatim>\<open>./cache/cache\<close> is not among the sources. Section 6 gives
  its three operations, \<^verbatim>\<open>getLoadObject(id) -> LoadObject|none\<close>,
  \<^verbatim>\<open>getVolumeContaining(id) -> CachedVolumeInfo|none\<close> and
  \<^verbatim>\<open>putLoadObject(id, LoadObject) -> void\<close>, and section 4.2 says that an object put
  under an identifier is what later calls find there. Eviction is outside the spec
  and outside this model.
\<close>

record Cache =
  imageCache :: "string \<rightharpoonup> ImageLoadObject"
  volumeCache :: "string \<rightharpoonup> CachedVolumeInfo"

definition getImageLoadObject :: "Cache \<Rightarrow> string \<Rightarrow> ImageLoadObject option" where
  "getImageLoadObject c imageId = imageCache c imageId"

definition getVolumeContainingImageId :: "Cache \<Rightarrow> string \<Rightarrow> CachedVolumeInfo option" where
  "getVolumeContainingImageId c imageId = volumeCache c imageId"

definition putImageLoadObject :: "string \<Rightarrow> ImageLoadObject \<Rightarrow> Cache \<Rightarrow> Cache" where
  "putImageLoadObject imageId imageLoadObject c =
     c\<lparr>imageCache := (imageCache c)(imageId \<mapsto> imageLoadObject)\<rparr>"

subsection \<open>The state\<close>

text \<open>
  \<^verbatim>\<open>const imageLoaders = {}\<close> is an ordinary object used as a dictionary. The model keeps
  its two parts apart. \<open>imageLoaders\<close> holds its own properties, the keys that
  \<^verbatim>\<open>Object.keys\<close> lists (nothing below depends on the order of the list).
  \<open>registryPrototype\<close> is its prototype: \<open>None\<close> stands for \<^verbatim>\<open>Object.prototype\<close>, the
  prototype of every object literal, and \<open>Some f\<close> for the function object \<open>f\<close>, which is
  what the prototype becomes when \<open>f\<close> is assigned under the key \<^verbatim>\<open>__proto__\<close>. The
  registry is private to the module, so nothing else can change either part.

  Three names are inherited from some function objects and not from others:
  \<^verbatim>\<open>prototype\<close> (a function declaration has it, an arrow function does not), and
  \<^verbatim>\<open>arguments\<close> and \<^verbatim>\<open>caller\<close> (reading them through a function of strict code
  throws; engines may give a function of sloppy code own properties of these names, whose
  value is \<^verbatim>\<open>null\<close> while the function is not running). \<open>functionYields f name\<close> says
  whether reading \<open>name\<close> through \<open>f\<close> gives a value other than \<^verbatim>\<open>undefined\<close> and
  \<^verbatim>\<open>null\<close> or throws; the module never changes it. Beyond these three names a loader
  function is taken to have the properties every function has and none of the program's
  own, and the built-in prototypes are as the language defines them.

  \<open>reactions\<close> holds the handler pairs that \<^verbatim>\<open>loadImageFromImageLoader\<close> has attached
  and that have not run yet: the promise and the \<^verbatim>\<open>imageId\<close> the closure captured.
  \<open>settled\<close> is the outcome of every promise that has one, \<open>events\<close> what
  \<^verbatim>\<open>triggerEvent\<close> has sent to \<^verbatim>\<open>eventTarget\<close>.
\<close>

record state =
  imageLoaders :: "(string \<times> ImageLoaderFn) list"
  registryPrototype :: "ImageLoaderFn option"
  functionYields :: "ImageLoaderFn \<Rightarrow> string \<Rightarrow> bool"
  unknownImageLoader :: "ImageLoaderFn option"
  cache :: Cache
  reactions :: "(Promise \<times> string) list"
  settled :: "Promise \<rightharpoonup> outcome"
  events :: "Event list"
  calls :: "call list"

subsection \<open>Strings\<close>

text \<open>
  \<^verbatim>\<open>String.prototype.indexOf\<close> for a one-character search string: the index of the first
  occurrence, or \<open>-1\<close>. \<^verbatim>\<open>String.prototype.substring(start, end)\<close>: both arguments
  are clamped to \<open>0 .. length\<close> and swapped when out of order.
\<close>

fun indexOf :: "string \<Rightarrow> char \<Rightarrow> int" where
  "indexOf [] c = - 1"
| "indexOf (x # xs) c =
     (if x = c then 0 else (let i = indexOf xs c in if i < 0 then - 1 else i + 1))"

definition substring :: "string \<Rightarrow> int \<Rightarrow> int \<Rightarrow> string" where
  "substring s start stop =
     (let n = int (length s);
          a = max 0 (min start n);
          b = max 0 (min stop n);
          lo = min a b;
          hi = max a b
      in take (nat (hi - lo)) (drop (nat lo) s))"

definition schemeOf :: "string \<Rightarrow> string" where
  "schemeOf imageId = substring imageId 0 (indexOf imageId CHR '':'')"

subsection \<open>The registry object\<close>

text \<open>
  The string-keyed properties of \<^verbatim>\<open>Object.prototype\<close> other than the accessor
  \<^verbatim>\<open>__proto__\<close>: built-in functions, all of them writable. A function object adds its
  own \<^verbatim>\<open>length\<close> and \<^verbatim>\<open>name\<close>, which are read-only, and \<^verbatim>\<open>Function.prototype\<close>
  adds writable built-in functions; \<^verbatim>\<open>constructor\<close> and \<^verbatim>\<open>toString\<close> are also
  among those of \<^verbatim>\<open>Object.prototype\<close>.
\<close>

definition objectPrototypeKeys :: "string list" where
  "objectPrototypeKeys =
     [''constructor'', ''hasOwnProperty'', ''isPrototypeOf'', ''propertyIsEnumerable'',
      ''toLocaleString'', ''toString'', ''valueOf'', ''__defineGetter__'',
      ''__defineSetter__'', ''__lookupGetter__'', ''__lookupSetter__'']"

definition functionPrototypeKeys :: "string list" where
  "functionPrototypeKeys = [''apply'', ''bind'', ''call'']"

definition readOnlyFunctionKeys :: "string list" where
  "readOnlyFunctionKeys = [''length'', ''name'']"

definition kindDependentKeys :: "string list" where
  "kindDependentKeys = [''prototype'', ''arguments'', ''caller'']"

text \<open>
  What line 40, \<^verbatim>\<open>const loader = imageLoaders[scheme]\<close>, finds, as far as the rest of
  \<^verbatim>\<open>loadImageFromImageLoader\<close> tells the cases apart. \<open>GotLoader f\<close>: the loader \<open>f\<close>,
  from an own property, or as the value of \<^verbatim>\<open>__proto__\<close> when \<open>f\<close> is the prototype.
  \<open>GotNothing\<close>: \<^verbatim>\<open>undefined\<close> or \<^verbatim>\<open>null\<close>. \<open>GotOther\<close>: an inherited value that is
  no loader (a built-in function, \<^verbatim>\<open>Object.prototype\<close> itself, a number, a string), or
  a read that throws. None of the inherited values survives lines 51 and 54: called with
  \<^verbatim>\<open>(imageId, options)\<close> it throws, or it returns a value without a \<^verbatim>\<open>promise\<close>, or
  it cannot be called at all.
\<close>

datatype got = GotLoader ImageLoaderFn | GotOther | GotNothing

definition getLoader :: "state \<Rightarrow> string \<Rightarrow> got" where
  "getLoader st scheme =
     (case map_of (imageLoaders st) scheme of
        Some loader \<Rightarrow> GotLoader loader
      | None \<Rightarrow>
          (case registryPrototype st of
             None \<Rightarrow>
               if scheme = ''__proto__'' \<or> scheme \<in> set objectPrototypeKeys
               then GotOther else GotNothing
           | Some f \<Rightarrow>
               if scheme = ''__proto__'' then GotLoader f
               else if scheme \<in> set (readOnlyFunctionKeys @ functionPrototypeKeys
                                        @ objectPrototypeKeys)
               then GotOther
               else if scheme \<in> set kindDependentKeys \<and> functionYields st f scheme
               then GotOther else GotNothing))"

text \<open>
  \<^verbatim>\<open>imageLoaders[scheme] = imageLoader\<close>, in the strict code of a module. An own
  property is overwritten. Otherwise the assignment goes by what the prototype chain has
  under the key: \<^verbatim>\<open>__proto__\<close> is an accessor whose setter makes the loader the
  prototype of the registry and adds no key; an inherited read-only property
  (\<^verbatim>\<open>length\<close> and \<^verbatim>\<open>name\<close> of a function) makes the assignment throw, and so do
  \<^verbatim>\<open>arguments\<close> and \<^verbatim>\<open>caller\<close> of a function, which are accessors that throw or
  read-only properties; under every other key a new own property is created.
\<close>

definition registerImageLoader ::
  "string \<Rightarrow> ImageLoaderFn \<Rightarrow> state \<Rightarrow> (JSError + unit) \<times> state" where
  "registerImageLoader scheme imageLoader st =
     (let stored =
            (Inr (), st\<lparr>imageLoaders := AList.update scheme imageLoader (imageLoaders st)\<rparr>)
      in case map_of (imageLoaders st) scheme of
           Some _ \<Rightarrow> stored
         | None \<Rightarrow>
             if scheme = ''__proto__''
             then (Inr (), st\<lparr>registryPrototype := Some imageLoader\<rparr>)
             else (case registryPrototype st of
                     None \<Rightarrow> stored
                   | Some f \<Rightarrow>
                       if scheme \<in> set (readOnlyFunctionKeys @ [''arguments'', ''caller''])
                       then (Inl NativeError, st) else stored))"

text \<open>Returns the previous unknown image loader, \<open>None\<close> for \<^verbatim>\<open>undefined\<close>.\<close>

definition registerUnknownImageLoader ::
  "ImageLoaderFn \<Rightarrow> state \<Rightarrow> ImageLoaderFn option \<times> state" where
  "registerUnknownImageLoader imageLoader st =
     (let oldImageLoader = unknownImageLoader st
      in (oldImageLoader, st\<lparr>unknownImageLoader := Some imageLoader\<rparr>))"

text \<open>
  \<^verbatim>\<open>Object.keys(imageLoaders).forEach((imageLoader) => delete imageLoaders[imageLoader])\<close>:
  the own keys are listed first, then each is deleted in turn. The prototype of the
  registry is not a key and stays.
\<close>

definition unregisterAllImageLoaders :: "state \<Rightarrow> state" where
  "unregisterAllImageLoaders st =
     st\<lparr>imageLoaders :=
          fold (\<lambda>imageLoader ls. AList.delete imageLoader ls)
            (map fst (imageLoaders st)) (imageLoaders st),
        unknownImageLoader := None\<rparr>"

subsection \<open>Dispatch\<close>

definition noLoaderError :: JSError where
  "noLoaderError = Error ''loadImageFromImageLoader: no image loader for imageId''"

definition loadImageFromImageLoader ::
  "string \<Rightarrow> ImageLoaderOptions option \<Rightarrow> state \<Rightarrow> (JSError + ImageLoadObject) \<times> state" where
  "loadImageFromImageLoader imageId options st =
     (let colonIndex = indexOf imageId CHR '':'';
          scheme = substring imageId 0 colonIndex
      in case getLoader st scheme of
           GotNothing \<Rightarrow>
             (case unknownImageLoader st of
                Some unknownLoader \<Rightarrow>
                  (Inr (unknownLoader imageId None),
                   st\<lparr>calls := calls st @ [LoaderCall unknownLoader imageId None]\<rparr>)
              | None \<Rightarrow> (Inl noLoaderError, st))
         | GotOther \<Rightarrow> (Inl NativeError, st)
         | GotLoader loader \<Rightarrow>
             (let imageLoadObject = loader imageId options
              in (Inr imageLoadObject,
                  st\<lparr>calls := calls st @ [LoaderCall loader imageId options],
                     reactions := reactions st @ [(promise imageLoadObject, imageId)]\<rparr>)))"

text \<open>
  The handler pair of lines 54 to 66, \<^verbatim>\<open>imageLoadObject.promise.then(onFulfilled,
  onRejected)\<close>, is the entry \<open>(promise imageLoadObject, imageId)\<close> added to
  \<open>reactions\<close> above; \<open>onSettled\<close> is what the pair does when the promise has its
  outcome.
\<close>

fun onSettled :: "string \<Rightarrow> outcome \<Rightarrow> Event" where
  "onSettled imageId (Fulfilled img) = IMAGE_LOADED img"
| "onSettled imageId (Rejected err) = IMAGE_LOAD_FAILED imageId err"

subsection \<open>The two entry points\<close>

text \<open>
  \<^verbatim>\<open>loadImageFromImageLoader(imageId, options).promise\<close>: the promise of the object
  returned; a \<^verbatim>\<open>throw\<close> of the call passes through.
\<close>

definition promiseOf ::
  "(JSError + ImageLoadObject) \<times> state \<Rightarrow> (JSError + Promise) \<times> state" where
  "promiseOf r =
     (case r of
        (Inl e, st') \<Rightarrow> (Inl e, st')
      | (Inr imageLoadObject, st') \<Rightarrow> (Inr (promise imageLoadObject), st'))"

text \<open>
  The identifier argument is \<open>None\<close> when the caller passes \<^verbatim>\<open>undefined\<close>, which is
  what the first check of both functions looks for.
\<close>

definition loadImage ::
  "string option \<Rightarrow> ImageLoaderOptions option \<Rightarrow> state \<Rightarrow> (JSError + Promise) \<times> state" where
  "loadImage imageIdArg options st =
     (case imageIdArg of
        None \<Rightarrow> (Inl (Error ''loadImage: parameter imageId must not be undefined''), st)
      | Some imageId \<Rightarrow>
          (case getImageLoadObject (cache st) imageId of
             Some imageLoadObject \<Rightarrow> (Inr (promise imageLoadObject), st)
           | None \<Rightarrow>
               (case getVolumeContainingImageId (cache st) imageId of
                  None \<Rightarrow> promiseOf (loadImageFromImageLoader imageId options st)
                | Some cachedVolumeInfo \<Rightarrow>
                    if loaded (loadStatus (volume cachedVolumeInfo)) then
                      (let imageLoadObject =
                             convertToCornerstoneImage (volume cachedVolumeInfo) imageId
                               (imageIdIndex cachedVolumeInfo)
                       in (Inr (promise imageLoadObject),
                           st\<lparr>calls := calls st @
                                [ConvertCall (volume cachedVolumeInfo) imageId
                                   (imageIdIndex cachedVolumeInfo)]\<rparr>))
                    else promiseOf (loadImageFromImageLoader imageId options st))))"

definition loadAndCacheImage ::
  "string option \<Rightarrow> ImageLoaderOptions option \<Rightarrow> state \<Rightarrow> (JSError + Promise) \<times> state" where
  "loadAndCacheImage imageIdArg options st =
     (case imageIdArg of
        None \<Rightarrow>
          (Inl (Error ''loadAndCacheImage: parameter imageId must not be undefined''), st)
      | Some imageId \<Rightarrow>
          (case getImageLoadObject (cache st) imageId of
             Some imageLoadObject \<Rightarrow> (Inr (promise imageLoadObject), st)
           | None \<Rightarrow>
               (let resolved =
                      (case getVolumeContainingImageId (cache st) imageId of
                         None \<Rightarrow> loadImageFromImageLoader imageId options st
                       | Some cachedVolumeInfo \<Rightarrow>
                           if loaded (loadStatus (volume cachedVolumeInfo)) then
                             (Inr (convertToCornerstoneImage (volume cachedVolumeInfo) imageId
                                     (imageIdIndex cachedVolumeInfo)),
                              st\<lparr>calls := calls st @
                                   [ConvertCall (volume cachedVolumeInfo) imageId
                                      (imageIdIndex cachedVolumeInfo)]\<rparr>)
                           else loadImageFromImageLoader imageId options st)
                in case resolved of
                     (Inl e, st') \<Rightarrow> (Inl e, st')
                   | (Inr imageLoadObject, st') \<Rightarrow>
                       (Inr (promise imageLoadObject),
                        st'\<lparr>cache := putImageLoadObject imageId imageLoadObject (cache st'),
                            calls := calls st' @ [PutCall imageId imageLoadObject]\<rparr>))))"

subsection \<open>Promises and the event target\<close>

text \<open>
  The host's part, as far as the handler pairs of this module go. A promise settles once:
  \<open>settle\<close> on a settled promise changes nothing. \<open>runJobs\<close> runs the attached pairs
  whose promise has settled, each once, in the order they were attached, and keeps the
  others; a pair that runs calls \<^verbatim>\<open>triggerEvent\<close>, which adds its event to
  \<open>events\<close>.
\<close>

definition settle :: "Promise \<Rightarrow> outcome \<Rightarrow> state \<Rightarrow> state" where
  "settle p oc st =
     (case settled st p of
        None \<Rightarrow> st\<lparr>settled := (settled st)(p \<mapsto> oc)\<rparr>
      | Some _ \<Rightarrow> st)"

fun fired :: "(Promise \<rightharpoonup> outcome) \<Rightarrow> (Promise \<times> string) list \<Rightarrow> Event list" where
  "fired s [] = []"
| "fired s ((p, imageId) # rs) =
     (case s p of
        None \<Rightarrow> fired s rs
      | Some oc \<Rightarrow> onSettled imageId oc # fired s rs)"

fun waiting ::
  "(Promise \<rightharpoonup> outcome) \<Rightarrow> (Promise \<times> string) list \<Rightarrow> (Promise \<times> string) list" where
  "waiting s [] = []"
| "waiting s ((p, imageId) # rs) =
     (case s p of
        None \<Rightarrow> (p, imageId) # waiting s rs
      | Some oc \<Rightarrow> waiting s rs)"

definition runJobs :: "state \<Rightarrow> state" where
  "runJobs st =
     st\<lparr>events := events st @ fired (settled st) (reactions st),
        reactions := waiting (settled st) (reactions st)\<rparr>"

subsection \<open>Concrete loaders and states\<close>

text \<open>
  The module as it is loaded (\<^verbatim>\<open>const imageLoaders = {}\<close>, \<^verbatim>\<open>let
  unknownImageLoader\<close>) with an empty cache, and the loaders, options and volume that the
  examples below run. The loaders are function declarations of strict code: each has a
  \<^verbatim>\<open>prototype\<close>, and reading \<^verbatim>\<open>arguments\<close> or \<^verbatim>\<open>caller\<close> through one throws.
\<close>

definition initialState :: state where
  "initialState =
     \<lparr>imageLoaders = [], registryPrototype = None,
      functionYields = (\<lambda>f name. True), unknownImageLoader = None,
      cache = \<lparr>imageCache = Map.empty, volumeCache = Map.empty\<rparr>,
      reactions = [], settled = Map.empty, events = [], calls = []\<rparr>"

definition wadouriLoader :: ImageLoaderFn where
  "wadouriLoader imageId options = \<lparr>promise = 1\<rparr>"

definition otherLoader :: ImageLoaderFn where
  "otherLoader imageId options = \<lparr>promise = 2\<rparr>"

definition fallbackLoader :: ImageLoaderFn where
  "fallbackLoader imageId options =
     (case options of None \<Rightarrow> \<lparr>promise = 7\<rparr> | Some _ \<Rightarrow> \<lparr>promise = 8\<rparr>)"

definition someOptions :: ImageLoaderOptions where
  "someOptions = [(''priority'', ''5'')]"

definition loadedVolume :: Volume where
  "loadedVolume =
     \<lparr>loadStatus = \<lparr>loaded = True\<rparr>,
      convertToCornerstoneImage = (\<lambda>imageId imageIdIndex. \<lparr>promise = 3\<rparr>)\<rparr>"

definition cachedState :: state where
  "cachedState =
     initialState\<lparr>cache :=
       \<lparr>imageCache = [''wadouri:a.dcm'' \<mapsto> \<lparr>promise = 5\<rparr>], volumeCache = Map.empty\<rparr>\<rparr>"

definition volumeState :: state where
  "volumeState =
     initialState\<lparr>imageLoaders := [(''wadouri'', wadouriLoader)],
       cache :=
         \<lparr>imageCache = Map.empty,
          volumeCache = [''wadouri:a.dcm'' \<mapsto> \<lparr>volume = loadedVolume, imageIdIndex = 4\<rparr>]\<rparr>\<rparr>"

definition wadouriState :: state where
  "wadouriState = snd (registerImageLoader ''wadouri'' wadouriLoader initialState)"

definition fallbackState :: state where
  "fallbackState = snd (registerUnknownImageLoader fallbackLoader initialState)"

definition afterFirstLoad :: state where
  "afterFirstLoad =
     snd (loadAndCacheImage (Some ''wadouri:a.dcm'') (Some someOptions) wadouriState)"

definition fullState :: state where
  "fullState = snd (registerUnknownImageLoader fallbackLoader wadouriState)"

definition emptySchemeState :: state where
  "emptySchemeState = snd (registerImageLoader [] wadouriLoader initialState)"

text \<open>
  \<^verbatim>\<open>registerImageLoader('__proto__', wadouriLoader)\<close> on the module as loaded, and then
  \<^verbatim>\<open>unregisterAllImageLoaders()\<close>.
\<close>

definition protoState :: state where
  "protoState = snd (registerImageLoader ''__proto__'' wadouriLoader initialState)"

definition clearedProtoState :: state where
  "clearedProtoState = unregisterAllImageLoaders protoState"

subsection \<open>Predicates of the statements\<close>

text \<open>
  The condition of step 2, \<^verbatim>\<open>cachedVolumeInfo && cachedVolumeInfo.volume.loadStatus.loaded\<close>,
  and the calls that are \<^verbatim>\<open>cache.putImageLoadObject\<close>.
\<close>

definition loadedVolumeHit :: "state \<Rightarrow> string \<Rightarrow> bool" where
  "loadedVolumeHit st imageId =
     (case getVolumeContainingImageId (cache st) imageId of
        None \<Rightarrow> False
      | Some cachedVolumeInfo \<Rightarrow> loaded (loadStatus (volume cachedVolumeInfo)))"

definition isPut :: "call \<Rightarrow> bool" where
  "isPut c = (case c of PutCall _ _ \<Rightarrow> True | _ \<Rightarrow> False)"

text \<open>
  A sequence of \<^verbatim>\<open>registerImageLoader\<close> calls, one per pair of the list; a call that
  throws leaves the state as it was, and the next call is made all the same.
\<close>

definition registerAll :: "(string \<times> ImageLoaderFn) list \<Rightarrow> state \<Rightarrow> state" where
  "registerAll regs st =
     fold (\<lambda>(scheme, imageLoader) s. snd (registerImageLoader scheme imageLoader s)) regs st"

section \<open>Parsing the scheme\<close>

lemma indexOf_absent: "c \<notin> set s \<Longrightarrow> indexOf s c = - 1"
  by (induction s) (auto simp: Let_def)

lemma indexOf_nonneg: "c \<in> set s \<Longrightarrow> 0 \<le> indexOf s c"
  by (induction s) (auto simp: Let_def)

lemma indexOf_first: "c \<notin> set s \<Longrightarrow> indexOf (s @ c # t) c = int (length s)"
  by (induction s) (auto simp: Let_def)

lemma schemeOf_no_colon: "CHR '':'' \<notin> set imageId \<Longrightarrow> schemeOf imageId = []"
  by (simp add: schemeOf_def substring_def indexOf_absent Let_def)

lemma schemeOf_prefix: "CHR '':'' \<notin> set s \<Longrightarrow> schemeOf (s @ CHR '':'' # body) = s"
  by (simp add: schemeOf_def substring_def indexOf_first Let_def)

lemma schemeOf_empty: "schemeOf [] = []"
  by (simp add: schemeOf_no_colon)

lemma wadouri_scheme: "schemeOf ''wadouri:a.dcm'' = ''wadouri''"
  using schemeOf_prefix [of "''wadouri''" "''a.dcm''"] by simp

text \<open>
  \<^verbatim>\<open>loadImageFromImageLoader\<close> by the scheme of the identifier: the loader registered
  under the scheme, else the unknown image loader, else the error.
\<close>

lemma getLoader_own:
  "map_of (imageLoaders st) scheme = Some f \<Longrightarrow> getLoader st scheme = GotLoader f"
  by (simp add: getLoader_def)

lemma getLoader_empty_scheme:
  "getLoader st [] =
     (case map_of (imageLoaders st) [] of Some f \<Rightarrow> GotLoader f | None \<Rightarrow> GotNothing)"
  by (simp add: getLoader_def objectPrototypeKeys_def functionPrototypeKeys_def
      readOnlyFunctionKeys_def kindDependentKeys_def split: option.splits)

lemma getLoader_plain:
  assumes "map_of (imageLoaders st) scheme = None"
    and "scheme \<notin> set (''__proto__'' # readOnlyFunctionKeys @ functionPrototypeKeys
                         @ objectPrototypeKeys @ kindDependentKeys)"
  shows "getLoader st scheme = GotNothing"
  using assms by (auto simp: getLoader_def split: option.splits)

lemma getLoader_object_prototype:
  assumes "map_of (imageLoaders st) scheme = None"
    and "registryPrototype st = None"
  shows "getLoader st scheme =
           (if scheme = ''__proto__'' \<or> scheme \<in> set objectPrototypeKeys
            then GotOther else GotNothing)"
  using assms by (simp add: getLoader_def)

lemma dispatch_by_scheme:
  "loadImageFromImageLoader imageId options st =
     (case getLoader st (schemeOf imageId) of
        GotNothing \<Rightarrow>
          (case unknownImageLoader st of
             Some unknownLoader \<Rightarrow>
               (Inr (unknownLoader imageId None),
                st\<lparr>calls := calls st @ [LoaderCall unknownLoader imageId None]\<rparr>)
           | None \<Rightarrow> (Inl noLoaderError, st))
      | GotOther \<Rightarrow> (Inl NativeError, st)
      | GotLoader loader \<Rightarrow>
          (Inr (loader imageId options),
           st\<lparr>calls := calls st @ [LoaderCall loader imageId options],
              reactions := reactions st @ [(promise (loader imageId options), imageId)]\<rparr>))"
  by (simp add: loadImageFromImageLoader_def schemeOf_def Let_def split: got.splits)

section \<open>The registry\<close>

lemma registerImageLoader_frame:
  "unknownImageLoader (snd (registerImageLoader scheme f st)) = unknownImageLoader st
   \<and> cache (snd (registerImageLoader scheme f st)) = cache st
   \<and> calls (snd (registerImageLoader scheme f st)) = calls st
   \<and> reactions (snd (registerImageLoader scheme f st)) = reactions st"
  by (simp add: registerImageLoader_def Let_def split: option.splits)

lemma registerImageLoader_own_keys:
  "imageLoaders (snd (registerImageLoader scheme f st)) = imageLoaders st
   \<or> imageLoaders (snd (registerImageLoader scheme f st))
       = AList.update scheme f (imageLoaders st)"
  by (simp add: registerImageLoader_def Let_def split: option.splits)

lemma registerImageLoader_other_key:
  assumes "scheme \<noteq> key"
  shows "map_of (imageLoaders (snd (registerImageLoader scheme f st))) key
           = map_of (imageLoaders st) key"
  using registerImageLoader_own_keys [of scheme f st] assms
  by (auto simp: update_conv')

lemma registerImageLoader_object_prototype:
  assumes "registryPrototype st = None" and "scheme \<noteq> ''__proto__''"
  shows "registerImageLoader scheme f st =
           (Inr (), st\<lparr>imageLoaders := AList.update scheme f (imageLoaders st)\<rparr>)"
  using assms by (simp add: registerImageLoader_def Let_def split: option.splits)

lemma fold_delete_all:
  "set (map fst al) \<subseteq> set ks \<Longrightarrow> fold (\<lambda>k ls. AList.delete k ls) ks al = []"
proof (induction ks arbitrary: al)
  case Nil
  then show ?case by simp
next
  case (Cons k ks)
  have "set (map fst (AList.delete k al)) \<subseteq> set ks"
    using Cons.prems by (auto simp: delete_keys)
  then show ?case using Cons.IH by simp
qed

lemma unregisterAll_eq:
  "unregisterAllImageLoaders st = st\<lparr>imageLoaders := [], unknownImageLoader := None\<rparr>"
  by (simp add: unregisterAllImageLoaders_def fold_delete_all)

lemma registerAll_fallback [simp]:
  "unknownImageLoader (registerAll regs st) = unknownImageLoader st"
  unfolding registerAll_def
  by (induction regs arbitrary: st) (auto simp: registerImageLoader_frame)

lemma registerAll_empty_scheme:
  "[] \<notin> fst ` set regs \<Longrightarrow>
     map_of (imageLoaders (registerAll regs st)) [] = map_of (imageLoaders st) []"
  unfolding registerAll_def
  by (induction regs arbitrary: st) (auto simp: registerImageLoader_other_key)

section \<open>The order of resolution\<close>

lemma loadImage_hit:
  "getImageLoadObject (cache st) imageId = Some obj \<Longrightarrow>
     loadImage (Some imageId) options st = (Inr (promise obj), st)"
  by (simp add: loadImage_def)

lemma loadAndCacheImage_hit:
  "getImageLoadObject (cache st) imageId = Some obj \<Longrightarrow>
     loadAndCacheImage (Some imageId) options st = (Inr (promise obj), st)"
  by (simp add: loadAndCacheImage_def)

lemma loadImage_volume:
  assumes "getImageLoadObject (cache st) imageId = None"
    and "getVolumeContainingImageId (cache st) imageId = Some info"
    and "loaded (loadStatus (volume info))"
  shows "loadImage (Some imageId) options st =
           (Inr (promise (convertToCornerstoneImage (volume info) imageId (imageIdIndex info))),
            st\<lparr>calls := calls st @ [ConvertCall (volume info) imageId (imageIdIndex info)]\<rparr>)"
  using assms by (simp add: loadImage_def Let_def)

lemma loadAndCacheImage_volume:
  assumes "getImageLoadObject (cache st) imageId = None"
    and "getVolumeContainingImageId (cache st) imageId = Some info"
    and "loaded (loadStatus (volume info))"
  shows "loadAndCacheImage (Some imageId) options st =
           (Inr (promise (convertToCornerstoneImage (volume info) imageId (imageIdIndex info))),
            st\<lparr>calls := calls st @
                  [ConvertCall (volume info) imageId (imageIdIndex info),
                   PutCall imageId
                     (convertToCornerstoneImage (volume info) imageId (imageIdIndex info))],
               cache := putImageLoadObject imageId
                  (convertToCornerstoneImage (volume info) imageId (imageIdIndex info))
                  (cache st)\<rparr>)"
  using assms by (simp add: loadAndCacheImage_def Let_def)

lemma loadImage_dispatch:
  assumes "getImageLoadObject (cache st) imageId = None"
    and "\<not> loadedVolumeHit st imageId"
  shows "loadImage (Some imageId) options st =
           (case loadImageFromImageLoader imageId options st of
              (Inl e, st') \<Rightarrow> (Inl e, st')
            | (Inr obj, st') \<Rightarrow> (Inr (promise obj), st'))"
  using assms by (simp add: loadImage_def promiseOf_def loadedVolumeHit_def Let_def split: option.splits)

lemma loadAndCacheImage_dispatch:
  assumes "getImageLoadObject (cache st) imageId = None"
    and "\<not> loadedVolumeHit st imageId"
  shows "loadAndCacheImage (Some imageId) options st =
           (case loadImageFromImageLoader imageId options st of
              (Inl e, st') \<Rightarrow> (Inl e, st')
            | (Inr obj, st') \<Rightarrow>
                (Inr (promise obj),
                 st'\<lparr>cache := putImageLoadObject imageId obj (cache st'),
                     calls := calls st' @ [PutCall imageId obj]\<rparr>))"
  using assms
  by (simp add: loadAndCacheImage_def loadedVolumeHit_def Let_def split: option.splits)

subsection \<open>The concrete states\<close>

lemma initialState_get:
  "getImageLoadObject (cache initialState) imageId = None
   \<and> \<not> loadedVolumeHit initialState imageId
   \<and> map_of (imageLoaders initialState) scheme = None"
  by (simp add: initialState_def getImageLoadObject_def getVolumeContainingImageId_def
      loadedVolumeHit_def)

lemma cachedState_get:
  "getImageLoadObject (cache cachedState) ''wadouri:a.dcm'' = Some \<lparr>promise = 5\<rparr>"
  by (simp add: cachedState_def initialState_def getImageLoadObject_def)

lemma volumeState_get:
  "getImageLoadObject (cache volumeState) ''wadouri:a.dcm'' = None
   \<and> getVolumeContainingImageId (cache volumeState) ''wadouri:a.dcm''
       = Some \<lparr>volume = loadedVolume, imageIdIndex = 4\<rparr>
   \<and> loaded (loadStatus (volume \<lparr>volume = loadedVolume, imageIdIndex = 4\<rparr>))"
  by (simp add: volumeState_def initialState_def getImageLoadObject_def
      getVolumeContainingImageId_def loadedVolume_def)

lemma wadouriState_eq:
  "wadouriState = initialState\<lparr>imageLoaders := [(''wadouri'', wadouriLoader)]\<rparr>"
  by (simp add: wadouriState_def registerImageLoader_def initialState_def)

lemma wadouriState_get:
  "getImageLoadObject (cache wadouriState) ''wadouri:a.dcm'' = None
   \<and> \<not> loadedVolumeHit wadouriState ''wadouri:a.dcm''"
  by (simp add: wadouriState_eq initialState_def
      getImageLoadObject_def getVolumeContainingImageId_def loadedVolumeHit_def)

lemma wadouriState_registry:
  "map_of (imageLoaders wadouriState) ''wadouri'' = Some wadouriLoader"
  by (simp add: wadouriState_eq)

lemma wadouriState_getLoader:
  "getLoader wadouriState ''wadouri'' = GotLoader wadouriLoader"
  by (simp add: getLoader_own wadouriState_registry)

lemma fallbackState_eq:
  "fallbackState = initialState\<lparr>unknownImageLoader := Some fallbackLoader\<rparr>"
  by (simp add: fallbackState_def registerUnknownImageLoader_def)

lemma fallbackState_get:
  "getImageLoadObject (cache fallbackState) imageId = None
   \<and> \<not> loadedVolumeHit fallbackState imageId
   \<and> map_of (imageLoaders fallbackState) scheme = None
   \<and> unknownImageLoader fallbackState = Some fallbackLoader"
  by (simp add: fallbackState_eq initialState_def getImageLoadObject_def
      getVolumeContainingImageId_def loadedVolumeHit_def)

lemma foo_scheme: "schemeOf ''foo:bar'' = ''foo''"
  using schemeOf_prefix [of "''foo''" "''bar''"] by simp

lemma foo_getLoader:
  "getLoader initialState ''foo'' = GotNothing
   \<and> getLoader fallbackState ''foo'' = GotNothing"
  by (simp add: getLoader_def fallbackState_eq initialState_def objectPrototypeKeys_def)

lemma fullState_eq:
  "fullState = initialState\<lparr>imageLoaders := [(''wadouri'', wadouriLoader)],
     unknownImageLoader := Some fallbackLoader\<rparr>"
  by (simp add: fullState_def wadouriState_eq registerUnknownImageLoader_def
      initialState_def)

lemma emptySchemeState_eq:
  "emptySchemeState = initialState\<lparr>imageLoaders := [([], wadouriLoader)]\<rparr>"
  by (simp add: emptySchemeState_def registerImageLoader_def initialState_def)

lemma protoState_eq:
  "protoState = initialState\<lparr>registryPrototype := Some wadouriLoader\<rparr>"
  by (simp add: protoState_def registerImageLoader_def initialState_def)

lemma clearedProtoState_eq: "clearedProtoState = protoState"
  by (simp add: clearedProtoState_def unregisterAll_eq protoState_eq initialState_def)

subsection \<open>Cache, volume, loader\<close>

text \<open>
  C2. Both \<^verbatim>\<open>loadImage\<close> and \<^verbatim>\<open>loadAndCacheImage\<close> resolve an identifier in the
  same three steps. (1) When the cache holds a load object for the identifier, its promise
  is returned and the state is unchanged: no loader, no volume and no
  \<^verbatim>\<open>putImageLoadObject\<close> is called. (2) Otherwise, when the cache knows a volume
  containing the identifier and that volume is loaded, the one capability called to
  resolve is \<^verbatim>\<open>convertToCornerstoneImage(imageId, imageIdIndex)\<close> of that volume; no
  loader is called, whatever the registry holds. (3) Otherwise the result is that of
  \<^verbatim>\<open>loadImageFromImageLoader\<close>. \<^verbatim>\<open>loadAndCacheImage\<close> differs only in putting the
  load object of steps 2 and 3 into the cache.
\<close>

theorem resolution_order:
  "(getImageLoadObject (cache st) imageId = Some obj \<longrightarrow>
      loadImage (Some imageId) options st = (Inr (promise obj), st)
    \<and> loadAndCacheImage (Some imageId) options st = (Inr (promise obj), st))
   \<and> (getImageLoadObject (cache st) imageId = None
      \<and> getVolumeContainingImageId (cache st) imageId = Some info
      \<and> loaded (loadStatus (volume info)) \<longrightarrow>
      loadImage (Some imageId) options st =
        (Inr (promise (convertToCornerstoneImage (volume info) imageId (imageIdIndex info))),
         st\<lparr>calls := calls st @ [ConvertCall (volume info) imageId (imageIdIndex info)]\<rparr>)
    \<and> loadAndCacheImage (Some imageId) options st =
        (Inr (promise (convertToCornerstoneImage (volume info) imageId (imageIdIndex info))),
         st\<lparr>calls := calls st @
               [ConvertCall (volume info) imageId (imageIdIndex info),
                PutCall imageId
                  (convertToCornerstoneImage (volume info) imageId (imageIdIndex info))],
            cache := putImageLoadObject imageId
               (convertToCornerstoneImage (volume info) imageId (imageIdIndex info))
               (cache st)\<rparr>))
   \<and> (getImageLoadObject (cache st) imageId = None \<and> \<not> loadedVolumeHit st imageId \<longrightarrow>
      loadImage (Some imageId) options st =
        (case loadImageFromImageLoader imageId options st of
           (Inl e, st') \<Rightarrow> (Inl e, st')
         | (Inr loadObject, st') \<Rightarrow> (Inr (promise loadObject), st'))
    \<and> loadAndCacheImage (Some imageId) options st =
        (case loadImageFromImageLoader imageId options st of
           (Inl e, st') \<Rightarrow> (Inl e, st')
         | (Inr loadObject, st') \<Rightarrow>
             (Inr (promise loadObject),
              st'\<lparr>cache := putImageLoadObject imageId loadObject (cache st'),
                  calls := calls st' @ [PutCall imageId loadObject]\<rparr>)))"
proof (intro conjI impI)
  assume "getImageLoadObject (cache st) imageId = Some obj"
  then show "loadImage (Some imageId) options st = (Inr (promise obj), st)"
    and "loadAndCacheImage (Some imageId) options st = (Inr (promise obj), st)"
    by (rule loadImage_hit, rule loadAndCacheImage_hit)
next
  assume v: "getImageLoadObject (cache st) imageId = None
      \<and> getVolumeContainingImageId (cache st) imageId = Some info
      \<and> loaded (loadStatus (volume info))"
  show "loadImage (Some imageId) options st =
        (Inr (promise (convertToCornerstoneImage (volume info) imageId (imageIdIndex info))),
         st\<lparr>calls := calls st @ [ConvertCall (volume info) imageId (imageIdIndex info)]\<rparr>)"
    using v by (simp add: loadImage_volume)
  show "loadAndCacheImage (Some imageId) options st =
        (Inr (promise (convertToCornerstoneImage (volume info) imageId (imageIdIndex info))),
         st\<lparr>calls := calls st @
               [ConvertCall (volume info) imageId (imageIdIndex info),
                PutCall imageId
                  (convertToCornerstoneImage (volume info) imageId (imageIdIndex info))],
            cache := putImageLoadObject imageId
               (convertToCornerstoneImage (volume info) imageId (imageIdIndex info))
               (cache st)\<rparr>)"
    using v by (simp add: loadAndCacheImage_volume)
next
  assume d: "getImageLoadObject (cache st) imageId = None \<and> \<not> loadedVolumeHit st imageId"
  show "loadImage (Some imageId) options st =
        (case loadImageFromImageLoader imageId options st of
           (Inl e, st') \<Rightarrow> (Inl e, st')
         | (Inr loadObject, st') \<Rightarrow> (Inr (promise loadObject), st'))"
    using d by (simp add: loadImage_dispatch)
  show "loadAndCacheImage (Some imageId) options st =
        (case loadImageFromImageLoader imageId options st of
           (Inl e, st') \<Rightarrow> (Inl e, st')
         | (Inr loadObject, st') \<Rightarrow>
             (Inr (promise loadObject),
              st'\<lparr>cache := putImageLoadObject imageId loadObject (cache st'),
                  calls := calls st' @ [PutCall imageId loadObject]\<rparr>))"
    using d by (simp add: loadAndCacheImage_dispatch)
qed

text \<open>
  The three steps at concrete states: a cached identifier, an identifier in a loaded
  volume (with a loader registered for its scheme, which is not called), and a dispatch to
  the loader registered for \<^verbatim>\<open>wadouri\<close>.
\<close>

theorem resolution_order_witness:
  "loadImage (Some ''wadouri:a.dcm'') None cachedState = (Inr 5, cachedState)
   \<and> loadAndCacheImage (Some ''wadouri:a.dcm'') None cachedState = (Inr 5, cachedState)
   \<and> fst (loadImage (Some ''wadouri:a.dcm'') None volumeState) = Inr 3
   \<and> calls (snd (loadImage (Some ''wadouri:a.dcm'') None volumeState))
       = [ConvertCall loadedVolume ''wadouri:a.dcm'' 4]
   \<and> calls (snd (loadAndCacheImage (Some ''wadouri:a.dcm'') None volumeState))
       = [ConvertCall loadedVolume ''wadouri:a.dcm'' 4,
          PutCall ''wadouri:a.dcm'' \<lparr>promise = 3\<rparr>]
   \<and> fst (loadImage (Some ''wadouri:a.dcm'') None wadouriState) = Inr 1
   \<and> calls (snd (loadAndCacheImage (Some ''wadouri:a.dcm'') None wadouriState))
       = [LoaderCall wadouriLoader ''wadouri:a.dcm'' None,
          PutCall ''wadouri:a.dcm'' \<lparr>promise = 1\<rparr>]"
proof -
  note hit = resolution_order [where st = cachedState and imageId = "''wadouri:a.dcm''"
      and obj = "\<lparr>promise = 5\<rparr>" and options = None]
  note vol = resolution_order [where st = volumeState and imageId = "''wadouri:a.dcm''"
      and info = "\<lparr>volume = loadedVolume, imageIdIndex = 4\<rparr>" and options = None]
  note dis = resolution_order [where st = wadouriState and imageId = "''wadouri:a.dcm''"
      and options = None]
  note reg = wadouriState_getLoader
  have a: "loadImage (Some ''wadouri:a.dcm'') None cachedState = (Inr 5, cachedState)"
    "loadAndCacheImage (Some ''wadouri:a.dcm'') None cachedState = (Inr 5, cachedState)"
    using hit cachedState_get by simp_all
  have b: "fst (loadImage (Some ''wadouri:a.dcm'') None volumeState) = Inr 3"
    "calls (snd (loadImage (Some ''wadouri:a.dcm'') None volumeState))
       = [ConvertCall loadedVolume ''wadouri:a.dcm'' 4]"
    "calls (snd (loadAndCacheImage (Some ''wadouri:a.dcm'') None volumeState))
       = [ConvertCall loadedVolume ''wadouri:a.dcm'' 4,
          PutCall ''wadouri:a.dcm'' \<lparr>promise = 3\<rparr>]"
    using vol volumeState_get
    by (simp_all add: loadedVolume_def volumeState_def initialState_def)
  have c: "fst (loadImage (Some ''wadouri:a.dcm'') None wadouriState) = Inr 1"
    "calls (snd (loadAndCacheImage (Some ''wadouri:a.dcm'') None wadouriState))
       = [LoaderCall wadouriLoader ''wadouri:a.dcm'' None,
          PutCall ''wadouri:a.dcm'' \<lparr>promise = 1\<rparr>]"
    using dis wadouriState_get
    by (simp_all add: dispatch_by_scheme wadouri_scheme reg wadouriLoader_def,
        simp_all add: wadouriState_eq initialState_def)
  from a b c show ?thesis by simp
qed

subsection \<open>What loadAndCacheImage leaves in the cache\<close>

lemma cache_runJobs_settle [simp]: "cache (runJobs (settle q oc st)) = cache st"
  by (simp add: runJobs_def settle_def split: option.splits)

lemma loadAndCacheImage_stores:
  assumes "loadAndCacheImage (Some imageId) options st = (Inr p, st')"
  shows "\<exists>obj. promise obj = p \<and> getImageLoadObject (cache st') imageId = Some obj"
proof (cases "getImageLoadObject (cache st) imageId")
  case (Some obj)
  then show ?thesis using assms by (auto simp: loadAndCacheImage_hit)
next
  case None
  show ?thesis
  proof (cases "loadedVolumeHit st imageId")
    case True
    then obtain info where i: "getVolumeContainingImageId (cache st) imageId = Some info"
      "loaded (loadStatus (volume info))"
      by (auto simp: loadedVolumeHit_def split: option.splits)
    show ?thesis
      using assms loadAndCacheImage_volume [OF None i, of options]
      by (auto simp: getImageLoadObject_def putImageLoadObject_def)
  next
    case False
    show ?thesis
      using assms loadAndCacheImage_dispatch [OF None False, of options]
      by (auto simp: getImageLoadObject_def putImageLoadObject_def dispatch_by_scheme
          split: option.splits got.splits)
  qed
qed

lemma loadAndCacheImage_put_last:
  assumes "loadAndCacheImage (Some imageId) options st = (Inr p, st')"
    and "getImageLoadObject (cache st) imageId = None"
  shows "\<exists>obj cs. promise obj = p \<and> calls st' = cs @ [PutCall imageId obj]
           \<and> getImageLoadObject (cache st') imageId = Some obj"
proof (cases "loadedVolumeHit st imageId")
  case True
  then obtain info where i: "getVolumeContainingImageId (cache st) imageId = Some info"
    "loaded (loadStatus (volume info))"
    by (auto simp: loadedVolumeHit_def split: option.splits)
  show ?thesis
    using assms(1) loadAndCacheImage_volume [OF assms(2) i, of options]
    by (auto simp: getImageLoadObject_def putImageLoadObject_def)
next
  case False
  show ?thesis
    using assms(1) loadAndCacheImage_dispatch [OF assms(2) False, of options]
    by (auto simp: getImageLoadObject_def putImageLoadObject_def dispatch_by_scheme
        split: option.splits got.splits)
qed

text \<open>
  C3. When \<^verbatim>\<open>loadAndCacheImage\<close> returns a promise after a cache miss (step 2 or step
  3), its last call before returning is \<^verbatim>\<open>putImageLoadObject\<close> with the identifier and
  the load object whose promise it returns, and the cache holds that object under the
  identifier. Hence a second call of either entry point for the identifier, with any
  options, made right away or after a promise has settled and the pending handlers have
  run, returns the same promise and leaves the state as it is: nothing is dispatched a
  second time.
\<close>

theorem loadAndCacheImage_then_cache_hit:
  assumes "loadAndCacheImage (Some imageId) options st = (Inr p, st')"
  shows "(getImageLoadObject (cache st) imageId = None \<longrightarrow>
            (\<exists>obj cs. promise obj = p \<and> calls st' = cs @ [PutCall imageId obj]
               \<and> getImageLoadObject (cache st') imageId = Some obj))
       \<and> loadImage (Some imageId) otherOptions st' = (Inr p, st')
       \<and> loadAndCacheImage (Some imageId) otherOptions st' = (Inr p, st')
       \<and> loadImage (Some imageId) otherOptions (runJobs (settle q oc st'))
           = (Inr p, runJobs (settle q oc st'))
       \<and> loadAndCacheImage (Some imageId) otherOptions (runJobs (settle q oc st'))
           = (Inr p, runJobs (settle q oc st'))"
proof -
  obtain obj where o: "promise obj = p" "getImageLoadObject (cache st') imageId = Some obj"
    using loadAndCacheImage_stores [OF assms] by blast
  have o': "getImageLoadObject (cache (runJobs (settle q oc st'))) imageId = Some obj"
    using o by simp
  show ?thesis
    using loadAndCacheImage_put_last [OF assms] o(1)
      loadImage_hit [OF o(2), of otherOptions] loadAndCacheImage_hit [OF o(2), of otherOptions]
      loadImage_hit [OF o', of otherOptions] loadAndCacheImage_hit [OF o', of otherOptions]
    by simp
qed

lemma first_load:
  "loadAndCacheImage (Some ''wadouri:a.dcm'') (Some someOptions) wadouriState
     = (Inr 1, afterFirstLoad)"
  using wadouriState_get
  by (simp add: afterFirstLoad_def loadAndCacheImage_dispatch dispatch_by_scheme
      wadouri_scheme wadouriState_getLoader wadouriLoader_def)

lemma afterFirstLoad_calls:
  "calls afterFirstLoad =
     [LoaderCall wadouriLoader ''wadouri:a.dcm'' (Some someOptions),
      PutCall ''wadouri:a.dcm'' \<lparr>promise = 1\<rparr>]"
  using wadouriState_get
  by (simp add: afterFirstLoad_def loadAndCacheImage_dispatch dispatch_by_scheme
      wadouri_scheme wadouriState_getLoader wadouriLoader_def,
      simp add: wadouriState_eq initialState_def)

text \<open>
  The scenario of the specification: \<^verbatim>\<open>loadAndCacheImage("wadouri:a.dcm", options)\<close>
  with a loader registered for \<^verbatim>\<open>wadouri\<close> calls the loader once and puts its object
  into the cache; the second call returns promise 1 from the cache.
\<close>

theorem loadAndCacheImage_then_cache_hit_witness:
  "loadAndCacheImage (Some ''wadouri:a.dcm'') (Some someOptions) wadouriState
     = (Inr 1, afterFirstLoad)
   \<and> getImageLoadObject (cache wadouriState) ''wadouri:a.dcm'' = None
   \<and> calls afterFirstLoad =
       [LoaderCall wadouriLoader ''wadouri:a.dcm'' (Some someOptions),
        PutCall ''wadouri:a.dcm'' \<lparr>promise = 1\<rparr>]
   \<and> loadImage (Some ''wadouri:a.dcm'') None afterFirstLoad = (Inr 1, afterFirstLoad)
   \<and> loadAndCacheImage (Some ''wadouri:a.dcm'') None afterFirstLoad = (Inr 1, afterFirstLoad)
   \<and> loadAndCacheImage (Some ''wadouri:a.dcm'') None
        (runJobs (settle 1 (Fulfilled (Image 0)) afterFirstLoad))
       = (Inr 1, runJobs (settle 1 (Fulfilled (Image 0)) afterFirstLoad))"
  using loadAndCacheImage_then_cache_hit [OF first_load, of None 1 "Fulfilled (Image 0)"]
    first_load afterFirstLoad_calls wadouriState_get
  by simp

subsection \<open>What loadImage leaves alone\<close>

lemma dispatch_frame:
  "cache (snd (loadImageFromImageLoader imageId options st)) = cache st
   \<and> filter isPut (calls (snd (loadImageFromImageLoader imageId options st)))
       = filter isPut (calls st)
   \<and> snd (loadImageFromImageLoader imageId options st)
       \<lparr>calls := calls st, reactions := reactions st\<rparr> = st"
proof (cases "getLoader st (schemeOf imageId)")
  case (GotLoader f)
  then show ?thesis by (simp add: dispatch_by_scheme isPut_def)
next
  case GotOther
  then show ?thesis by (simp add: dispatch_by_scheme)
next
  case GotNothing
  then show ?thesis
    by (cases "unknownImageLoader st") (simp_all add: dispatch_by_scheme isPut_def)
qed

lemma promiseOf_snd [simp]: "snd (promiseOf r) = snd r"
  by (cases r) (auto simp: promiseOf_def split: sum.splits)

text \<open>
  C7. \<^verbatim>\<open>loadImage\<close> stores nothing: for every identifier argument and options the cache
  after the call is the cache before it, no \<^verbatim>\<open>putImageLoadObject\<close> is among the calls
  it makes, and the call log and the attached handlers are all of the state that can
  differ.
\<close>

theorem loadImage_leaves_cache:
  "cache (snd (loadImage imageIdArg options st)) = cache st
   \<and> filter isPut (calls (snd (loadImage imageIdArg options st))) = filter isPut (calls st)
   \<and> snd (loadImage imageIdArg options st)
       \<lparr>calls := calls st, reactions := reactions st\<rparr> = st"
proof (cases imageIdArg)
  case None
  then show ?thesis by (simp add: loadImage_def)
next
  case (Some imageId)
  show ?thesis
  proof (cases "getImageLoadObject (cache st) imageId")
    case (Some obj)
    then show ?thesis using \<open>imageIdArg = Some imageId\<close> by (simp add: loadImage_hit)
  next
    case None
    show ?thesis
    proof (cases "loadedVolumeHit st imageId")
      case True
      then obtain info where i: "getVolumeContainingImageId (cache st) imageId = Some info"
        "loaded (loadStatus (volume info))"
        by (auto simp: loadedVolumeHit_def split: option.splits)
      show ?thesis
        using \<open>imageIdArg = Some imageId\<close> loadImage_volume [OF None i, of options]
        by (simp add: isPut_def)
    next
      case False
      have "loadImage (Some imageId) options st
              = promiseOf (loadImageFromImageLoader imageId options st)"
        using None False by (simp add: loadImage_dispatch promiseOf_def)
      then show ?thesis
        using \<open>imageIdArg = Some imageId\<close> dispatch_frame [of imageId options st] by simp
    qed
  qed
qed

section \<open>The registry as an object with a prototype\<close>

subsection \<open>Where the registry behaves as a dictionary\<close>

text \<open>
  When the lookup of the scheme finds nothing, dispatch goes to the unknown image loader
  or throws the no-loader error.
\<close>

lemma dispatch_without_loader:
  assumes "getImageLoadObject (cache st) imageId = None"
    and "\<not> loadedVolumeHit st imageId"
    and "getLoader st (schemeOf imageId) = GotNothing"
  shows "(unknownImageLoader st = None \<longrightarrow>
            loadImage (Some imageId) options st = (Inl noLoaderError, st)
          \<and> loadAndCacheImage (Some imageId) options st = (Inl noLoaderError, st))
       \<and> (unknownImageLoader st = Some fallback \<longrightarrow>
            fst (loadImage (Some imageId) options st) = Inr (promise (fallback imageId None))
          \<and> fst (loadAndCacheImage (Some imageId) options st)
              = Inr (promise (fallback imageId None)))"
  using assms
  by (simp add: loadImage_dispatch loadAndCacheImage_dispatch dispatch_by_scheme)

text \<open>
  \<^verbatim>\<open>unregisterAllImageLoaders\<close> removes every own key and the unknown image loader, and
  doing it twice is doing it once; the prototype of the registry is left as it is.
\<close>

lemma unregisterAll_own_keys:
  "imageLoaders (unregisterAllImageLoaders st) = []
   \<and> unknownImageLoader (unregisterAllImageLoaders st) = None
   \<and> registryPrototype (unregisterAllImageLoaders st) = registryPrototype st
   \<and> unregisterAllImageLoaders (unregisterAllImageLoaders st) = unregisterAllImageLoaders st"
  by (simp add: unregisterAll_eq)

text \<open>A registration that does not throw is what the next lookup of the scheme finds.\<close>

lemma registered_loader_is_found:
  assumes "fst (registerImageLoader scheme f st) = Inr ()"
  shows "getLoader (snd (registerImageLoader scheme f st)) scheme = GotLoader f"
proof (cases "map_of (imageLoaders st) scheme")
  case (Some g)
  then show ?thesis
    by (simp add: registerImageLoader_def getLoader_def Let_def update_conv')
next
  case None
  show ?thesis
  proof (cases "scheme = ''__proto__''")
    case True
    then show ?thesis using None
      by (simp add: registerImageLoader_def getLoader_def Let_def)
  next
    case False
    have "snd (registerImageLoader scheme f st)
            = st\<lparr>imageLoaders := AList.update scheme f (imageLoaders st)\<rparr>"
      using assms None False
      by (cases "registryPrototype st")
         (simp_all add: registerImageLoader_def Let_def split: if_splits)
    then show ?thesis by (simp add: getLoader_def update_conv')
  qed
qed

text \<open>
  While the prototype is \<^verbatim>\<open>Object.prototype\<close>, no registration throws, and one under a
  key other than \<^verbatim>\<open>__proto__\<close> adds or overwrites an own key.
\<close>

lemma register_on_object_prototype:
  assumes "registryPrototype st = None"
  shows "fst (registerImageLoader scheme f st) = Inr ()"
  using assms by (simp add: registerImageLoader_def Let_def split: option.splits)

subsection \<open>Concrete identifiers\<close>

lemma constructor_scheme: "schemeOf ''constructor:x'' = ''constructor''"
  using schemeOf_prefix [of "''constructor''" "''x''"] by simp

lemma proto_scheme: "schemeOf ''__proto__:a'' = ''__proto__''"
  using schemeOf_prefix [of "''__proto__''" "''a''"] by simp

lemma length_scheme: "schemeOf ''length:a'' = ''length''"
  using schemeOf_prefix [of "''length''" "''a''"] by simp

lemma constructor_getLoader:
  "getLoader initialState ''constructor'' = GotOther
   \<and> getLoader fallbackState ''constructor'' = GotOther
   \<and> getLoader (unregisterAllImageLoaders fullState) ''constructor'' = GotOther"
  by (simp add: getLoader_def unregisterAll_eq fullState_eq fallbackState_eq initialState_def
      objectPrototypeKeys_def)

lemma protoState_getLoader:
  "getLoader protoState ''__proto__'' = GotLoader wadouriLoader
   \<and> getLoader protoState ''length'' = GotOther"
  by (simp add: getLoader_def protoState_eq initialState_def readOnlyFunctionKeys_def)

lemma protoState_get:
  "getImageLoadObject (cache protoState) imageId = None
   \<and> \<not> loadedVolumeHit protoState imageId"
  by (simp add: protoState_eq initialState_def getImageLoadObject_def
      getVolumeContainingImageId_def loadedVolumeHit_def)

lemma fullState_cleared_get:
  "getImageLoadObject (cache (unregisterAllImageLoaders fullState)) imageId = None
   \<and> \<not> loadedVolumeHit (unregisterAllImageLoaders fullState) imageId"
  by (simp add: unregisterAll_eq fullState_eq initialState_def getImageLoadObject_def
      getVolumeContainingImageId_def loadedVolumeHit_def)

subsection \<open>Where it does not\<close>

text \<open>
  C4 at an input where the code departs from it: the module as loaded, nothing registered,
  identifier \<^verbatim>\<open>constructor:x\<close>. Line 40 reads \<^verbatim>\<open>imageLoaders['constructor']\<close> and
  finds the inherited \<^verbatim>\<open>Object\<close>, which is neither \<^verbatim>\<open>undefined\<close> nor \<^verbatim>\<open>null\<close>;
  line 51 calls it and line 54 reads \<^verbatim>\<open>promise.then\<close> of a value without a
  \<^verbatim>\<open>promise\<close>. Both entry points throw the engine's error, not the no-loader error, and
  with an unknown image loader installed they throw just the same: that loader is not
  called (the state, with its call log, is untouched).
\<close>

theorem inherited_scheme_taken_for_a_loader:
  "imageLoaders initialState = [] \<and> imageLoaders fallbackState = []
   \<and> unknownImageLoader initialState = None
   \<and> unknownImageLoader fallbackState = Some fallbackLoader
   \<and> loadImage (Some ''constructor:x'') None initialState = (Inl NativeError, initialState)
   \<and> loadAndCacheImage (Some ''constructor:x'') None initialState
       = (Inl NativeError, initialState)
   \<and> loadImage (Some ''constructor:x'') None fallbackState = (Inl NativeError, fallbackState)
   \<and> loadAndCacheImage (Some ''constructor:x'') None fallbackState
       = (Inl NativeError, fallbackState)
   \<and> NativeError \<noteq> noLoaderError"
  using initialState_get [of "''constructor:x''" "''constructor''"]
    fallbackState_get [of "''constructor:x''" "''constructor''"] constructor_getLoader
  by (simp add: loadImage_dispatch loadAndCacheImage_dispatch dispatch_by_scheme
      constructor_scheme noLoaderError_def,
      simp add: fallbackState_eq initialState_def)

text \<open>
  C8 at an input where the code departs from it:
  \<^verbatim>\<open>registerImageLoader('__proto__', wadouriLoader)\<close> on the module as loaded, then
  \<^verbatim>\<open>unregisterAllImageLoaders()\<close>. The assignment of line 181 made the loader the
  prototype of the registry and added no key, so \<^verbatim>\<open>Object.keys\<close> lists nothing to
  delete: the registry has no own key and no unknown image loader, and still
  \<^verbatim>\<open>loadImage('__proto__:a')\<close> reaches dispatch, finds the loader and calls it. Also
  after \<^verbatim>\<open>unregisterAllImageLoaders\<close> on a registry with a \<^verbatim>\<open>wadouri\<close> loader and an
  unknown image loader, \<^verbatim>\<open>constructor:x\<close> throws the engine's error and not the
  no-loader error.
\<close>

theorem prototype_loader_survives_unregisterAll:
  "imageLoaders clearedProtoState = []
   \<and> unknownImageLoader clearedProtoState = None
   \<and> registryPrototype clearedProtoState = Some wadouriLoader
   \<and> getImageLoadObject (cache clearedProtoState) ''__proto__:a'' = None
   \<and> \<not> loadedVolumeHit clearedProtoState ''__proto__:a''
   \<and> fst (loadImage (Some ''__proto__:a'') None clearedProtoState) = Inr 1
   \<and> calls (snd (loadImage (Some ''__proto__:a'') None clearedProtoState))
       = [LoaderCall wadouriLoader ''__proto__:a'' None]
   \<and> fst (loadAndCacheImage (Some ''__proto__:a'') None clearedProtoState) = Inr 1
   \<and> fst (loadImage (Some ''constructor:x'') None (unregisterAllImageLoaders fullState))
       = Inl NativeError"
  using protoState_get [of "''__proto__:a''"] protoState_getLoader
    fullState_cleared_get [of "''constructor:x''"] constructor_getLoader
  by (simp add: clearedProtoState_eq loadImage_dispatch loadAndCacheImage_dispatch
      dispatch_by_scheme proto_scheme constructor_scheme wadouriLoader_def,
      simp add: protoState_eq initialState_def)

text \<open>
  C9 at an input where the code departs from it: after
  \<^verbatim>\<open>registerImageLoader('__proto__', wadouriLoader)\<close> the registry inherits the
  read-only \<^verbatim>\<open>length\<close> of that function. \<^verbatim>\<open>registerImageLoader('length', f1)\<close> and
  then \<^verbatim>\<open>registerImageLoader('length', f2)\<close> both throw at the assignment of line 181
  and leave the registry as it was; the lookup of \<^verbatim>\<open>length\<close> finds a number, not
  \<open>f2\<close>, and \<^verbatim>\<open>length:a\<close> is not loaded by \<open>f2\<close>.
\<close>

theorem register_under_read_only_name_throws:
  "registerImageLoader ''length'' otherLoader protoState = (Inl NativeError, protoState)
   \<and> registerImageLoader ''length'' fallbackLoader
        (snd (registerImageLoader ''length'' otherLoader protoState))
       = (Inl NativeError, protoState)
   \<and> map_of (imageLoaders
        (snd (registerImageLoader ''length'' fallbackLoader
           (snd (registerImageLoader ''length'' otherLoader protoState))))) ''length'' = None
   \<and> loadImageFromImageLoader ''length:a'' None
        (snd (registerImageLoader ''length'' fallbackLoader
           (snd (registerImageLoader ''length'' otherLoader protoState))))
       = (Inl NativeError, protoState)"
proof -
  have r: "registerImageLoader ''length'' f protoState = (Inl NativeError, protoState)" for f
    by (simp add: registerImageLoader_def protoState_eq initialState_def
        readOnlyFunctionKeys_def Let_def)
  show ?thesis
    using protoState_getLoader
    by (simp add: r dispatch_by_scheme length_scheme, simp add: protoState_eq initialState_def)
qed

section \<open>Identifiers with an empty scheme\<close>

text \<open>
  C5, as stated, fails: a loader can be registered under the empty scheme, and then an
  identifier without a colon is dispatched to it. Here \<^verbatim>\<open>registerImageLoader('', L)\<close>
  on the initial state, no unknown image loader, and the identifier \<^verbatim>\<open>abc\<close>.
\<close>

theorem colonless_identifier_counterexample:
  "CHR '':'' \<notin> set ''abc''
   \<and> imageLoaders emptySchemeState = [([], wadouriLoader)]
   \<and> unknownImageLoader emptySchemeState = None
   \<and> fst (loadImageFromImageLoader ''abc'' None emptySchemeState) = Inr \<lparr>promise = 1\<rparr>
   \<and> calls (snd (loadImageFromImageLoader ''abc'' None emptySchemeState))
       = [LoaderCall wadouriLoader ''abc'' None]"
  by (simp add: dispatch_by_scheme schemeOf_no_colon getLoader_empty_scheme
      emptySchemeState_eq wadouriLoader_def,
      simp add: initialState_def)

text \<open>
  C5, amended. An identifier without a colon has the empty scheme, and its dispatch is
  decided by the entry of the registry under the empty scheme: that loader if there is
  one, else the unknown image loader, else the no-loader error. After any sequence of
  \<^verbatim>\<open>registerImageLoader\<close> calls none of which uses the empty scheme, on a registry with
  no loader under the empty scheme, no registered loader is called for such an identifier.
\<close>

theorem colonless_identifier_dispatch:
  assumes "CHR '':'' \<notin> set imageId"
  shows "schemeOf imageId = []
       \<and> loadImageFromImageLoader imageId options st =
           (case map_of (imageLoaders st) [] of
              Some loader \<Rightarrow>
                (Inr (loader imageId options),
                 st\<lparr>calls := calls st @ [LoaderCall loader imageId options],
                    reactions := reactions st @ [(promise (loader imageId options), imageId)]\<rparr>)
            | None \<Rightarrow>
                (case unknownImageLoader st of
                   Some unknownLoader \<Rightarrow>
                     (Inr (unknownLoader imageId None),
                      st\<lparr>calls := calls st @ [LoaderCall unknownLoader imageId None]\<rparr>)
                 | None \<Rightarrow> (Inl noLoaderError, st)))
       \<and> ([] \<notin> fst ` set regs \<and> map_of (imageLoaders st) [] = None \<longrightarrow>
            loadImageFromImageLoader imageId options (registerAll regs st) =
              (case unknownImageLoader st of
                 Some unknownLoader \<Rightarrow>
                   (Inr (unknownLoader imageId None),
                    (registerAll regs st)
                      \<lparr>calls := calls (registerAll regs st)
                         @ [LoaderCall unknownLoader imageId None]\<rparr>)
               | None \<Rightarrow> (Inl noLoaderError, registerAll regs st)))"
  using assms
  by (auto simp: dispatch_by_scheme schemeOf_no_colon getLoader_empty_scheme
      registerAll_empty_scheme split: option.splits)

text \<open>
  \<^verbatim>\<open>abc\<close> after registering loaders for \<^verbatim>\<open>wadouri\<close> and \<^verbatim>\<open>http\<close>: the unknown
  image loader answers when there is one, and the call throws when there is none.
\<close>

theorem colonless_identifier_dispatch_witness:
  "CHR '':'' \<notin> set ''abc''
   \<and> [] \<notin> fst ` set [(''wadouri'', wadouriLoader), (''http'', otherLoader)]
   \<and> map_of (imageLoaders fallbackState) [] = None
   \<and> schemeOf ''abc'' = []
   \<and> fst (loadImageFromImageLoader ''abc'' (Some someOptions)
        (registerAll [(''wadouri'', wadouriLoader), (''http'', otherLoader)] fallbackState))
       = Inr \<lparr>promise = 7\<rparr>
   \<and> fst (loadImageFromImageLoader ''abc'' (Some someOptions)
        (registerAll [(''wadouri'', wadouriLoader), (''http'', otherLoader)] initialState))
       = Inl (Error ''loadImageFromImageLoader: no image loader for imageId'')"
proof -
  have c: "CHR '':'' \<notin> set ''abc''" by simp
  have r: "[] \<notin> fst ` set [(''wadouri'', wadouriLoader), (''http'', otherLoader)]" by simp
  have u: "unknownImageLoader initialState = None" by (simp add: initialState_def)
  show ?thesis
    using colonless_identifier_dispatch [OF c, of "Some someOptions" fallbackState
        "[(''wadouri'', wadouriLoader), (''http'', otherLoader)]"]
      colonless_identifier_dispatch [OF c, of "Some someOptions" initialState
        "[(''wadouri'', wadouriLoader), (''http'', otherLoader)]"]
      fallbackState_get [of "''abc''" "[]"] initialState_get [of "''abc''" "[]"] c r u
    by (simp add: fallbackLoader_def noLoaderError_def)
qed

lemma parameter_error_only_for_undefined:
  "(fst (loadImage imageIdArg options st)
      = Inl (Error ''loadImage: parameter imageId must not be undefined''))
     = (imageIdArg = None)"
  by (cases imageIdArg)
     (auto simp: loadImage_def promiseOf_def dispatch_by_scheme noLoaderError_def Let_def
       split: option.splits got.splits)

lemma parameter_error_only_for_undefined_cached:
  "(fst (loadAndCacheImage imageIdArg options st)
      = Inl (Error ''loadAndCacheImage: parameter imageId must not be undefined''))
     = (imageIdArg = None)"
  by (cases imageIdArg)
     (auto simp: loadAndCacheImage_def dispatch_by_scheme noLoaderError_def Let_def
       split: option.splits got.splits)

text \<open>
  C10, as stated, fails in its last part: with a loader registered under the empty scheme,
  no cache or volume hit and no unknown image loader, \<^verbatim>\<open>loadImage('')\<close> neither uses
  a fallback nor throws; it calls the registered loader.
\<close>

theorem empty_identifier_counterexample:
  "getImageLoadObject (cache emptySchemeState) [] = None
   \<and> \<not> loadedVolumeHit emptySchemeState []
   \<and> unknownImageLoader emptySchemeState = None
   \<and> fst (loadImage (Some []) None emptySchemeState) = Inr 1
   \<and> calls (snd (loadImage (Some []) None emptySchemeState))
       = [LoaderCall wadouriLoader [] None]"
proof -
  have e: "getImageLoadObject (cache emptySchemeState) [] = None
      \<and> \<not> loadedVolumeHit emptySchemeState []"
    by (simp add: emptySchemeState_eq initialState_def getImageLoadObject_def
        getVolumeContainingImageId_def loadedVolumeHit_def)
  show ?thesis
    using e
    by (simp add: loadImage_dispatch dispatch_by_scheme schemeOf_empty
        getLoader_empty_scheme,
        simp add: emptySchemeState_eq initialState_def wadouriLoader_def)
qed

text \<open>
  C10, amended. The parameter error of either entry point is thrown exactly when the
  identifier is \<^verbatim>\<open>undefined\<close>. The empty string passes that check and is resolved as
  any identifier, with the empty scheme: absent a cache or volume hit, by the loader
  registered under the empty scheme if there is one, else by the unknown image loader, else
  by throwing the no-loader error.
\<close>

theorem empty_identifier_resolution:
  "((fst (loadImage imageIdArg options st)
       = Inl (Error ''loadImage: parameter imageId must not be undefined''))
      = (imageIdArg = None))
   \<and> ((fst (loadAndCacheImage imageIdArg options st)
       = Inl (Error ''loadAndCacheImage: parameter imageId must not be undefined''))
      = (imageIdArg = None))
   \<and> schemeOf [] = []
   \<and> (getImageLoadObject (cache st) [] = None \<and> \<not> loadedVolumeHit st [] \<longrightarrow>
        fst (loadImage (Some []) options st) =
          (case map_of (imageLoaders st) [] of
             Some loader \<Rightarrow> Inr (promise (loader [] options))
           | None \<Rightarrow>
               (case unknownImageLoader st of
                  Some unknownLoader \<Rightarrow> Inr (promise (unknownLoader [] None))
                | None \<Rightarrow> Inl noLoaderError))
      \<and> fst (loadAndCacheImage (Some []) options st) =
          (case map_of (imageLoaders st) [] of
             Some loader \<Rightarrow> Inr (promise (loader [] options))
           | None \<Rightarrow>
               (case unknownImageLoader st of
                  Some unknownLoader \<Rightarrow> Inr (promise (unknownLoader [] None))
                | None \<Rightarrow> Inl noLoaderError)))"
proof (intro conjI impI)
  assume h: "getImageLoadObject (cache st) [] = None \<and> \<not> loadedVolumeHit st []"
  show "fst (loadImage (Some []) options st) =
          (case map_of (imageLoaders st) [] of
             Some loader \<Rightarrow> Inr (promise (loader [] options))
           | None \<Rightarrow>
               (case unknownImageLoader st of
                  Some unknownLoader \<Rightarrow> Inr (promise (unknownLoader [] None))
                | None \<Rightarrow> Inl noLoaderError))"
    using h
    by (simp add: loadImage_dispatch dispatch_by_scheme schemeOf_empty
        getLoader_empty_scheme split: option.splits)
  show "fst (loadAndCacheImage (Some []) options st) =
          (case map_of (imageLoaders st) [] of
             Some loader \<Rightarrow> Inr (promise (loader [] options))
           | None \<Rightarrow>
               (case unknownImageLoader st of
                  Some unknownLoader \<Rightarrow> Inr (promise (unknownLoader [] None))
                | None \<Rightarrow> Inl noLoaderError))"
    using h
    by (simp add: loadAndCacheImage_dispatch dispatch_by_scheme schemeOf_empty
        getLoader_empty_scheme split: option.splits)
qed (simp_all add: parameter_error_only_for_undefined
      parameter_error_only_for_undefined_cached schemeOf_empty)

text \<open>
  The empty identifier with only an unknown image loader, with nothing at all, and with a
  loader under the empty scheme; and \<^verbatim>\<open>undefined\<close>, which alone raises the parameter
  error.
\<close>

theorem empty_identifier_resolution_witness:
  "getImageLoadObject (cache fallbackState) [] = None
   \<and> \<not> loadedVolumeHit fallbackState []
   \<and> fst (loadImage (Some []) (Some someOptions) fallbackState) = Inr 7
   \<and> fst (loadAndCacheImage (Some []) (Some someOptions) fallbackState) = Inr 7
   \<and> fst (loadImage (Some []) (Some someOptions) initialState)
       = Inl (Error ''loadImageFromImageLoader: no image loader for imageId'')
   \<and> fst (loadImage (Some []) (Some someOptions) emptySchemeState) = Inr 1
   \<and> fst (loadImage None (Some someOptions) initialState)
       = Inl (Error ''loadImage: parameter imageId must not be undefined'')"
proof -
  have e: "getImageLoadObject (cache emptySchemeState) [] = None
      \<and> \<not> loadedVolumeHit emptySchemeState []
      \<and> map_of (imageLoaders emptySchemeState) [] = Some wadouriLoader"
    by (simp add: emptySchemeState_eq initialState_def getImageLoadObject_def
        getVolumeContainingImageId_def loadedVolumeHit_def)
  have u: "unknownImageLoader initialState = None" by (simp add: initialState_def)
  show ?thesis
    using empty_identifier_resolution [of "Some []" "Some someOptions" fallbackState]
      empty_identifier_resolution [of "Some []" "Some someOptions" initialState]
      empty_identifier_resolution [of "Some []" "Some someOptions" emptySchemeState]
      empty_identifier_resolution [of None "Some someOptions" initialState]
      fallbackState_get [of "[]" "[]"] initialState_get [of "[]" "[]"] e u
    by (simp add: fallbackLoader_def wadouriLoader_def noLoaderError_def)
qed

section \<open>Events and loader arguments\<close>

lemma fired_snoc:
  "fired s (rs @ [(p, imageId)]) =
     fired s rs @ (case s p of None \<Rightarrow> [] | Some oc \<Rightarrow> [onSettled imageId oc])"
  by (induction rs) (auto split: option.splits)

lemma waiting_snoc:
  "waiting s (rs @ [(p, imageId)]) =
     waiting s rs @ (case s p of None \<Rightarrow> [(p, imageId)] | Some oc \<Rightarrow> [])"
  by (induction rs) (auto split: option.splits)

lemma fired_waiting: "fired s (waiting s rs) = []"
  by (induction rs) (auto split: option.splits)

lemma waiting_waiting: "waiting s (waiting s rs) = waiting s rs"
  by (induction rs) (auto split: option.splits)

lemma runJobs_idem: "runJobs (runJobs st) = runJobs st"
  by (simp add: runJobs_def fired_waiting waiting_waiting)

text \<open>
  The path through a registered loader: the loader is called once with the identifier and
  the caller's options, one handler pair is attached to the promise of its load object, and
  when that promise settles the pair sends one event, the one for the outcome.
\<close>

lemma registered_load_attaches_one_pair:
  assumes "map_of (imageLoaders st) (schemeOf imageId) = Some loader"
  shows "loadImageFromImageLoader imageId options st =
           (Inr (loader imageId options),
            st\<lparr>calls := calls st @ [LoaderCall loader imageId options],
               reactions := reactions st @ [(promise (loader imageId options), imageId)]\<rparr>)"
  using assms by (simp add: dispatch_by_scheme getLoader_own)

lemma registered_load_one_event:
  assumes "map_of (imageLoaders st) (schemeOf imageId) = Some loader"
    and "settled st (promise (loader imageId options)) = None"
  shows "events (runJobs (settle (promise (loader imageId options)) oc
                   (snd (loadImageFromImageLoader imageId options st))))
           = events (runJobs (settle (promise (loader imageId options)) oc st))
               @ [onSettled imageId oc]"
  using assms
  by (simp add: registered_load_attaches_one_pair runJobs_def settle_def fired_snoc)

text \<open>
  C1 at an input where the code departs from it: no loader registered, an unknown image
  loader installed, identifier \<^verbatim>\<open>foo:bar\<close>. Line 44 returns the load object of the
  unknown image loader before the handler pair of lines 54 to 66 is attached, so whether
  its promise (promise 7) is fulfilled or rejected, no event is sent.
\<close>

theorem fallback_load_emits_no_event:
  "fst (loadImage (Some ''foo:bar'') (Some someOptions) fallbackState) = Inr 7
   \<and> reactions (snd (loadImage (Some ''foo:bar'') (Some someOptions) fallbackState)) = []
   \<and> events (runJobs (settle 7 (Fulfilled (Image 0))
        (snd (loadImage (Some ''foo:bar'') (Some someOptions) fallbackState)))) = []
   \<and> events (runJobs (settle 7 (Rejected (Error ''network''))
        (snd (loadAndCacheImage (Some ''foo:bar'') (Some someOptions) fallbackState)))) = []"
  using fallbackState_get [of "''foo:bar''" "''foo''"] foo_getLoader
  by (simp add: loadImage_dispatch loadAndCacheImage_dispatch dispatch_by_scheme
      foo_scheme fallbackLoader_def runJobs_def settle_def,
      simp add: fallbackState_eq initialState_def)

text \<open>
  C6 at an input where the code departs from it: the same state, called with options.
  Line 44 is \<^verbatim>\<open>unknownImageLoader(imageId)\<close>: the unknown image loader receives the
  identifier alone, and a loader that reads its options answers differently than it would
  have with them.
\<close>

theorem fallback_called_without_options:
  "calls (snd (loadImage (Some ''foo:bar'') (Some someOptions) fallbackState))
     = [LoaderCall fallbackLoader ''foo:bar'' None]
   \<and> calls (snd (loadAndCacheImage (Some ''foo:bar'') (Some someOptions) fallbackState))
     = [LoaderCall fallbackLoader ''foo:bar'' None, PutCall ''foo:bar'' \<lparr>promise = 7\<rparr>]
   \<and> fallbackLoader ''foo:bar'' (Some someOptions) \<noteq> fallbackLoader ''foo:bar'' None"
  using fallbackState_get [of "''foo:bar''" "''foo''"] foo_getLoader
  by (simp add: loadImage_dispatch loadAndCacheImage_dispatch dispatch_by_scheme
      foo_scheme,
      simp add: fallbackState_eq initialState_def fallbackLoader_def)

end
